theory Spec2Isabelle
  imports Complex_Main
begin

section \<open>Reactive effects\<close>

text \<open>
  The components register their work with the framework's \<^verbatim>\<open>createEffect\<close>: the body runs
  once on activation and again after a reactive value it reads has changed; the function it
  passed to \<^verbatim>\<open>onCleanup\<close> runs before the next run and when the owner is disposed.

  An effect is modelled by what one run does with the reactive values \<open>'i\<close> current at that
  run: the calls the body makes, and the calls its registered cleanup makes when it is run
  later. The cleanup receives the reactive values current when it runs, because a closure
  that reads a prop reads its value of that moment; what the closure captured in a
  \<^verbatim>\<open>const\<close> is fixed by the run that registered it.
\<close>

type_synonym ('i, 'c) effect = "'i \<Rightarrow> 'c list \<times> ('i \<Rightarrow> 'c list)"

text \<open>A change from the values \<open>old\<close> to \<open>new\<close>: the cleanup of the last run, then the body.\<close>

definition rerun :: "('i, 'c) effect \<Rightarrow> 'i \<Rightarrow> 'i \<Rightarrow> 'c list" where
  "rerun e old new = snd (e old) new @ fst (e new)"

text \<open>Activation on \<open>v\<close>, one re-run for each later value, then disposal.\<close>

fun lifecycle :: "('i, 'c) effect \<Rightarrow> 'i \<Rightarrow> 'i list \<Rightarrow> 'c list" where
  "lifecycle e v [] = fst (e v) @ snd (e v) v"
| "lifecycle e v (w # ws) = fst (e v) @ snd (e v) w @ lifecycle e w ws"

text \<open>The optional call \<^verbatim>\<open>f?.(args)\<close>: nothing when the callback is absent.\<close>

definition optional_call :: "'f option \<Rightarrow> ('f \<Rightarrow> 'c) \<Rightarrow> 'c list" where
  "optional_call f call = (case f of None \<Rightarrow> [] | Some g \<Rightarrow> [call g])"


section \<open>Pane primitives (helpers/utils.ts)\<close>

text \<open>
  Primitives, pane objects and user callbacks are JavaScript objects; the model names each by
  a number that stands for its identity. A trace lists the calls made on the pane object and
  the user callbacks invoked, in order.
\<close>

type_synonym primitive = nat
type_synonym pane_api = nat
type_synonym callback = nat
type_synonym chart_api = nat

datatype pane_call =
    DetachPrimitive pane_api primitive
  | AttachPrimitive pane_api primitive
  | PrimitivesCallback callback "primitive list"

fun detachPanePrimitives :: "primitive list \<Rightarrow> pane_api option \<Rightarrow> pane_call list" where
  "detachPanePrimitives primitives None = []"
| "detachPanePrimitives primitives (Some pane) = map (DetachPrimitive pane) primitives"

fun attachPanePrimitives :: "primitive list \<Rightarrow> pane_api option \<Rightarrow> pane_call list" where
  "attachPanePrimitives primitives None = []"
| "attachPanePrimitives primitives (Some pane) =
     detachPanePrimitives primitives (Some pane) @ map (AttachPrimitive pane) primitives"


section \<open>Pane index allocation (the chart host and the Pane component)\<close>

text \<open>
  \<^verbatim>\<open>chart.__nextPaneIndex = 1; chart.__getNextPaneIndex = () => chart.__nextPaneIndex++\<close>.
  Pane indices are JavaScript numbers; the model takes the integers, without the loss of
  precision of a double beyond \<open>2^53\<close>.
\<close>

record chart_state =
  nextPaneIndex :: int

definition createChart :: chart_state where
  "createChart = \<lparr>nextPaneIndex = 1\<rparr>"

definition getNextPaneIndex :: "chart_state \<Rightarrow> int \<times> chart_state" where
  "getNextPaneIndex chart = (nextPaneIndex chart, chart\<lparr>nextPaneIndex := nextPaneIndex chart + 1\<rparr>)"

text \<open>The props of a Pane after \<^verbatim>\<open>mergeProps\<close> (an absent primitive list is the empty one).\<close>

record pane_props =
  index :: "int option"
  pane_primitives :: "primitive list"
  onAttachPrimitives :: "callback option"
  onDetachPrimitives :: "callback option"

text \<open>\<^verbatim>\<open>_props.index ?? chart.__getNextPaneIndex()\<close>, evaluated once by the memo.\<close>

definition Pane_paneIdx :: "int option \<Rightarrow> chart_state \<Rightarrow> int \<times> chart_state" where
  "Pane_paneIdx explicitIndex chart =
     (case explicitIndex of Some i \<Rightarrow> (i, chart) | None \<Rightarrow> getNextPaneIndex chart)"

text \<open>Pane declarations activated one after the other inside one chart.\<close>

fun declarePanes :: "int option list \<Rightarrow> chart_state \<Rightarrow> int list \<times> chart_state" where
  "declarePanes [] chart = ([], chart)"
| "declarePanes (d # ds) chart =
     (let (i, chart') = Pane_paneIdx d chart;
          (is, chart'') = declarePanes ds chart'
      in (i # is, chart''))"


section \<open>Contexts\<close>

text \<open>
  What a descendant reads from the chart host through the chart context: the chart handle,
  the current chart-level primitive list and the two wrappers around the host's optional
  callbacks.
\<close>

record chart_context =
  chartApi :: chart_api
  primitives :: "primitive list"
  onPrimitivesAttached :: "callback option"
  onPrimitivesDetached :: "callback option"

definition onChartPrimitivesAttached :: "chart_context \<Rightarrow> primitive list \<Rightarrow> pane_call list" where
  "onChartPrimitivesAttached cc ps =
     optional_call (onPrimitivesAttached cc) (\<lambda>cb. PrimitivesCallback cb ps)"

definition onChartPrimitivesDetached :: "chart_context \<Rightarrow> primitive list \<Rightarrow> pane_call list" where
  "onChartPrimitivesDetached cc ps =
     optional_call (onPrimitivesDetached cc) (\<lambda>cb. PrimitivesCallback cb ps)"

text \<open>The pane context: the memoized index and the current props of the enclosing Pane.\<close>

record pane_context =
  paneIdx :: int
  paneProps :: pane_props

definition panePrimitives :: "pane_context \<Rightarrow> primitive list" where
  "panePrimitives pc = pane_primitives (paneProps pc)"

definition onPanePrimitivesAttached :: "pane_context \<Rightarrow> primitive list \<Rightarrow> pane_call list" where
  "onPanePrimitivesAttached pc ps =
     optional_call (onAttachPrimitives (paneProps pc)) (\<lambda>cb. PrimitivesCallback cb ps)"

definition onPanePrimitivesDetached :: "pane_context \<Rightarrow> primitive list \<Rightarrow> pane_call list" where
  "onPanePrimitivesDetached pc ps =
     optional_call (onDetachPrimitives (paneProps pc)) (\<lambda>cb. PrimitivesCallback cb ps)"

text \<open>The default of \<^verbatim>\<open>createContext\<close>, read by a series with no enclosing Pane.\<close>

definition default_PaneContext :: pane_context where
  "default_PaneContext =
     \<lparr>paneIdx = 0,
      paneProps = \<lparr>index = None, pane_primitives = [],
                   onAttachPrimitives = None, onDetachPrimitives = None\<rparr>\<rparr>"

text \<open>The context a Pane provides to its children, and the chart with its counter advanced.\<close>

definition Pane_context :: "pane_props \<Rightarrow> chart_state \<Rightarrow> pane_context \<times> chart_state" where
  "Pane_context props chart =
     (let (i, chart') = Pane_paneIdx (index props) chart
      in (\<lparr>paneIdx = i, paneProps = props\<rparr>, chart'))"


section \<open>The scope-primitive effect of a series\<close>

text \<open>\<^verbatim>\<open>chart().panes()[paneIdx()]\<close>: an index with no entry reads \<^verbatim>\<open>undefined\<close>.\<close>

definition seriesPane :: "pane_api list \<Rightarrow> int \<Rightarrow> pane_api option" where
  "seriesPane panes idx =
     (if 0 \<le> idx \<and> nat idx < length panes then Some (panes ! nat idx) else None)"

definition currentPanePrimitives :: "chart_context \<times> pane_context \<Rightarrow> primitive list" where
  "currentPanePrimitives i =
     (if paneIdx (snd i) = 0 then primitives (fst i) else panePrimitives (snd i))"

definition attachCallback :: "chart_context \<times> pane_context \<Rightarrow> chart_context \<times> pane_context \<Rightarrow>
    primitive list \<Rightarrow> pane_call list" where
  "attachCallback i cur =
     (if paneIdx (snd i) = 0 then onChartPrimitivesAttached (fst cur)
      else onPanePrimitivesAttached (snd cur))"

definition detachCallback :: "chart_context \<times> pane_context \<Rightarrow> chart_context \<times> pane_context \<Rightarrow>
    primitive list \<Rightarrow> pane_call list" where
  "detachCallback i cur =
     (if paneIdx (snd i) = 0 then onChartPrimitivesDetached (fst cur)
      else onPanePrimitivesDetached (snd cur))"

text \<open>
  The effect of \<^verbatim>\<open>Series\<close>, \<^verbatim>\<open>CustomSeries\<close> and \<^verbatim>\<open>createCustomSeries\<close>, the same in the three
  chart families. The pane object was looked up once, when the series mounted. The run
  chooses the wrapper by the index it reads; the wrapper reads the user's callback when it
  is called.
\<close>

definition Series_scope_effect ::
    "pane_api option \<Rightarrow> (chart_context \<times> pane_context, pane_call) effect" where
  "Series_scope_effect pane i =
     (attachPanePrimitives (currentPanePrimitives i) pane
        @ attachCallback i i (currentPanePrimitives i),
      \<lambda>cur. detachPanePrimitives (currentPanePrimitives i) pane
        @ detachCallback i cur (currentPanePrimitives i))"

text \<open>Observations on a trace: the primitives detached, those attached, in call order.\<close>

fun detached :: "pane_call list \<Rightarrow> primitive list" where
  "detached [] = []"
| "detached (DetachPrimitive pane p # t) = p # detached t"
| "detached (c # t) = detached t"

fun attached :: "pane_call list \<Rightarrow> primitive list" where
  "attached [] = []"
| "attached (AttachPrimitive pane p # t) = p # attached t"
| "attached (c # t) = attached t"

text \<open>
  No attach of a primitive that is attached already: \<open>A\<close> is the set attached before the
  trace, an attach adds to it, a detach removes from it.
\<close>

fun no_double_attach :: "primitive set \<Rightarrow> pane_call list \<Rightarrow> bool" where
  "no_double_attach A [] = True"
| "no_double_attach A (AttachPrimitive pane p # t) = (p \<notin> A \<and> no_double_attach (insert p A) t)"
| "no_double_attach A (DetachPrimitive pane p # t) = no_double_attach (A - {p}) t"
| "no_double_attach A (PrimitivesCallback cb ps # t) = no_double_attach A t"


section \<open>The chart host: resize and event subscriptions\<close>

type_synonym handler = nat

text \<open>\<^verbatim>\<open>eventHandlers?: MouseEventHandler | MouseEventHandler[]\<close>\<close>

datatype event_handlers = Handler handler | Handlers "handler list"

datatype chart_method =
    subscribeClick | subscribeDblClick | subscribeCrosshairMove
  | unsubscribeClick | unsubscribeDblClick | unsubscribeCrosshairMove

datatype chart_call =
    ChartCall chart_method handler
  | Resize real real bool
  | OnResize callback real real

text \<open>
  \<^verbatim>\<open>createSubscriptionEffect(chart, methods, eventHandlers)\<close>. The handlers are an argument of
  the function, a plain value: the effect it creates reads no reactive value, so its input
  is \<open>unit\<close>. With no handlers the body returns before it registers a cleanup.
\<close>

definition createSubscriptionEffect ::
    "chart_method \<times> chart_method \<Rightarrow> event_handlers option \<Rightarrow> (unit, chart_call) effect" where
  "createSubscriptionEffect methods eventHandlers u =
     (case eventHandlers of
        None \<Rightarrow> ([], \<lambda>cur. [])
      | Some (Handlers hs) \<Rightarrow>
          (map (ChartCall (fst methods)) hs, \<lambda>cur. map (ChartCall (snd methods)) hs)
      | Some (Handler h) \<Rightarrow>
          ([ChartCall (fst methods) h], \<lambda>cur. [ChartCall (snd methods) h]))"

text \<open>The props of a chart host that its own effects read, after \<^verbatim>\<open>mergeProps\<close>.\<close>

record chart_props =
  autoSize :: bool
  width :: real
  height :: real
  forceRepaintOnResize :: bool
  onClick :: "event_handlers option"
  onDblClick :: "event_handlers option"
  onCrosshairMove :: "event_handlers option"
  onResize :: "callback option"

text \<open>The resize effect of the host's \<^verbatim>\<open>onMount\<close>; it registers no cleanup.\<close>

definition resize_effect :: "(chart_props, chart_call) effect" where
  "resize_effect props =
     (if autoSize props then []
      else Resize (width props) (height props) (forceRepaintOnResize props)
           # optional_call (onResize props) (\<lambda>cb. OnResize cb (width props) (height props)),
      \<lambda>cur. [])"

text \<open>
  The three subscriptions of the host's \<^verbatim>\<open>onMount\<close>. \<^verbatim>\<open>local.onClick\<close> is read there, once,
  and passed by value: \<open>mounted\<close> are the props at that moment, and the props current at a
  later run of the effect do not reach it.
\<close>

definition click_subscription :: "chart_props \<Rightarrow> (chart_props, chart_call) effect" where
  "click_subscription mounted props =
     (let r = createSubscriptionEffect (subscribeClick, unsubscribeClick) (onClick mounted) ()
      in (fst r, \<lambda>cur. snd r ()))"

definition dblClick_subscription :: "chart_props \<Rightarrow> (chart_props, chart_call) effect" where
  "dblClick_subscription mounted props =
     (let r = createSubscriptionEffect (subscribeDblClick, unsubscribeDblClick)
                (onDblClick mounted) ()
      in (fst r, \<lambda>cur. snd r ()))"

definition crosshairMove_subscription :: "chart_props \<Rightarrow> (chart_props, chart_call) effect" where
  "crosshairMove_subscription mounted props =
     (let r = createSubscriptionEffect (subscribeCrosshairMove, unsubscribeCrosshairMove)
                (onCrosshairMove mounted) ()
      in (fst r, \<lambda>cur. snd r ()))"

text \<open>The handlers of a prop as a list: none, the single one, or the array.\<close>

fun handlers_of :: "event_handlers option \<Rightarrow> handler list" where
  "handlers_of None = []"
| "handlers_of (Some (Handler h)) = [h]"
| "handlers_of (Some (Handlers hs)) = hs"


section \<open>The data effect of a series\<close>

datatype ('d, 'm) series_call =
    SetData 'd
  | OnSetData callback 'd
  | CreateSeriesMarkers "'m list"
  | OnSetMarkers callback "'m list"

text \<open>
  The props the data effect reads, after \<^verbatim>\<open>mergeProps\<close>: an absent \<^verbatim>\<open>markers\<close> is
  \<^verbatim>\<open>() => []\<close>. The marker function is taken to be pure.
\<close>

record ('d, 'm) series_props =
  data :: 'd
  markers :: "('d \<Rightarrow> 'm list) option"
  onSetData :: "callback option"
  onSetMarkers :: "callback option"

definition local_markers :: "('d, 'm) series_props \<Rightarrow> 'd \<Rightarrow> 'm list" where
  "local_markers props = (case markers props of None \<Rightarrow> (\<lambda>d. []) | Some f \<Rightarrow> f)"

definition data_effect :: "(('d, 'm) series_props, ('d, 'm) series_call) effect" where
  "data_effect props =
     (let dataMarkers = local_markers props (data props)
      in ([SetData (data props)]
          @ optional_call (onSetData props) (\<lambda>cb. OnSetData cb (data props))
          @ [CreateSeriesMarkers dataMarkers]
          @ optional_call (onSetMarkers props) (\<lambda>cb. OnSetMarkers cb dataMarkers),
          \<lambda>cur. []))"


section \<open>Looking up the parent chart\<close>

datatype error = Error string

text \<open>The chart contexts provided by the ancestors of a declaration, one per family.\<close>

record context_env =
  TimeChartContext :: "chart_context option"
  PriceChartContext :: "chart_context option"
  YieldCurveChartContext :: "chart_context option"

definition useTimeChart :: "context_env \<Rightarrow> error + chart_context" where
  "useTimeChart env =
     (case TimeChartContext env of
        None \<Rightarrow> Inl (Error ''[solid-lightweight-charts] No parent TimeChart component found!'')
      | Some ctx \<Rightarrow> Inr ctx)"

definition usePriceChart :: "context_env \<Rightarrow> error + chart_context" where
  "usePriceChart env =
     (case PriceChartContext env of
        None \<Rightarrow> Inl (Error ''[solid-lightweight-charts] No parent PriceChart component found!'')
      | Some ctx \<Rightarrow> Inr ctx)"

definition useYieldCurveChart :: "context_env \<Rightarrow> error + chart_context" where
  "useYieldCurveChart env =
     (case YieldCurveChartContext env of
        None \<Rightarrow>
          Inl (Error ''[solid-lightweight-charts] No parent YieldCurveChart component found!'')
      | Some ctx \<Rightarrow> Inr ctx)"


type_synonym hook = "context_env \<Rightarrow> error + chart_context"

text \<open>
  The four declarations of a family call the family's hook first; an exception of the hook
  leaves the component, nothing catches it. \<open>panes\<close> is what \<^verbatim>\<open>chart().panes()\<close> returns once
  the series has been added.
\<close>

definition Pane ::
    "hook \<Rightarrow> context_env \<Rightarrow> pane_props \<Rightarrow> chart_state \<Rightarrow> error + pane_context \<times> chart_state" where
  "Pane useChart env props chart =
     (case useChart env of Inl e \<Rightarrow> Inl e | Inr ctx \<Rightarrow> Inr (Pane_context props chart))"

definition Series ::
    "hook \<Rightarrow> context_env \<Rightarrow> pane_context \<Rightarrow> pane_api list \<Rightarrow> error + pane_api option" where
  "Series useChart env pc panes =
     (case useChart env of Inl e \<Rightarrow> Inl e | Inr ctx \<Rightarrow> Inr (seriesPane panes (paneIdx pc)))"

definition CustomSeries ::
    "hook \<Rightarrow> context_env \<Rightarrow> pane_context \<Rightarrow> pane_api list \<Rightarrow> error + pane_api option" where
  "CustomSeries useChart env pc panes =
     (case useChart env of Inl e \<Rightarrow> Inl e | Inr ctx \<Rightarrow> Inr (seriesPane panes (paneIdx pc)))"


section \<open>The tooltip (helpers/createTooltip.tsx)\<close>

record point =
  point_x :: real
  point_y :: real

text \<open>
  A horizontal scale item: a number (a UTC timestamp, a price, a duration), a date string or
  a business day object. \<^verbatim>\<open>!item\<close> is true of the number zero and of the empty string.
\<close>

datatype horz_scale_item = NumberItem real | StringItem string | BusinessDay int int int

fun falsy :: "horz_scale_item \<Rightarrow> bool" where
  "falsy (NumberItem n) = (n = 0)"
| "falsy (StringItem s) = (s = [])"
| "falsy (BusinessDay y m d) = False"

type_synonym series_data = "nat \<Rightarrow> real option"

record mouse_event_params =
  param_point :: "point option"
  param_time :: "horz_scale_item option"
  param_seriesData :: series_data

text \<open>
  The tooltip state. The non-null assertions of \<^verbatim>\<open>param.point!\<close> and \<^verbatim>\<open>param.time!\<close> do nothing
  when the code runs, so the state holds what the event held.
\<close>

record tooltip_props =
  tooltip_chart :: chart_api
  tooltip_seriesData :: series_data
  tooltip_point :: "point option"
  tooltip_time :: "horz_scale_item option"

record tooltip_state =
  visible :: bool
  tooltipProps :: tooltip_props

record container =
  clientWidth :: int
  clientHeight :: int

record tooltip_root_props =
  onHide :: "callback option"
  onShow :: "callback option"

datatype tooltip_call = OnHide callback | OnShow callback

definition createTooltip :: "chart_api \<Rightarrow> tooltip_state" where
  "createTooltip chart =
     \<lparr>visible = False,
      tooltipProps = \<lparr>tooltip_chart = chart, tooltip_seriesData = Map.empty,
                      tooltip_point = Some \<lparr>point_x = - 1, point_y = - 1\<rparr>,
                      tooltip_time = None\<rparr>\<rparr>"

definition outOfBounds :: "container \<Rightarrow> mouse_event_params \<Rightarrow> bool" where
  "outOfBounds c param =
     (case param_point param of
        None \<Rightarrow> True
      | Some pt \<Rightarrow>
          (case param_time param of None \<Rightarrow> True | Some t \<Rightarrow> falsy t)
          \<or> point_x pt < 0
          \<or> point_y pt < 0
          \<or> point_x pt > real_of_int (clientWidth c)
          \<or> point_y pt > real_of_int (clientHeight c))"

definition Tooltip_onCrosshairMove ::
    "chart_api \<Rightarrow> tooltip_root_props \<Rightarrow> container \<Rightarrow> mouse_event_params \<Rightarrow> tooltip_state \<Rightarrow>
     tooltip_state \<times> tooltip_call list" where
  "Tooltip_onCrosshairMove chart props c param st =
     (if outOfBounds c param
      then (st\<lparr>visible := False\<rparr>, optional_call (onHide props) OnHide)
      else (\<lparr>visible = True,
             tooltipProps = \<lparr>tooltip_chart = chart,
                             tooltip_seriesData = param_seriesData param,
                             tooltip_point = param_point param,
                             tooltip_time = param_time param\<rparr>\<rparr>,
            optional_call (onShow props) OnShow))"

definition Tooltip :: "hook \<Rightarrow> context_env \<Rightarrow> error + tooltip_state" where
  "Tooltip useChart env =
     (case useChart env of Inl e \<Rightarrow> Inl e | Inr ctx \<Rightarrow> Inr (createTooltip (chartApi ctx)))"


section \<open>Facts about traces\<close>

lemma detached_append: "detached (xs @ ys) = detached xs @ detached ys"
  by (induction xs rule: detached.induct) simp_all

lemma attached_append: "attached (xs @ ys) = attached xs @ attached ys"
  by (induction xs rule: attached.induct) simp_all

lemma detached_map_Detach: "detached (map (DetachPrimitive pane) ps) = ps"
  by (induction ps) simp_all

lemma detached_map_Attach: "detached (map (AttachPrimitive pane) ps) = []"
  by (induction ps) simp_all

lemma attached_map_Detach: "attached (map (DetachPrimitive pane) ps) = []"
  by (induction ps) simp_all

lemma attached_map_Attach: "attached (map (AttachPrimitive pane) ps) = ps"
  by (induction ps) simp_all

lemma detached_optional_call:
  "detached (optional_call f (\<lambda>cb. PrimitivesCallback cb ps)) = []"
  by (cases f) (simp_all add: optional_call_def)

lemma attached_optional_call:
  "attached (optional_call f (\<lambda>cb. PrimitivesCallback cb ps)) = []"
  by (cases f) (simp_all add: optional_call_def)

lemma detached_callbacks:
  "detached (attachCallback i cur ps) = []" "detached (detachCallback i cur ps) = []"
  by (simp_all add: attachCallback_def detachCallback_def onChartPrimitivesAttached_def
      onChartPrimitivesDetached_def onPanePrimitivesAttached_def onPanePrimitivesDetached_def
      detached_optional_call)

lemma attached_callbacks:
  "attached (attachCallback i cur ps) = []" "attached (detachCallback i cur ps) = []"
  by (simp_all add: attachCallback_def detachCallback_def onChartPrimitivesAttached_def
      onChartPrimitivesDetached_def onPanePrimitivesAttached_def onPanePrimitivesDetached_def
      attached_optional_call)

lemma nda_detach_all:
  "no_double_attach A (map (DetachPrimitive pane) ps @ t) = no_double_attach (A - set ps) t"
proof (induction ps arbitrary: A)
  case Nil
  then show ?case by simp
next
  case (Cons p ps)
  have "A - {p} - set ps = A - set (p # ps)" by auto
  with Cons show ?case by simp
qed

lemma nda_attach_all:
  "distinct ps \<Longrightarrow> set ps \<inter> A = {} \<Longrightarrow>
   no_double_attach A (map (AttachPrimitive pane) ps @ t) = no_double_attach (A \<union> set ps) t"
proof (induction ps arbitrary: A)
  case Nil
  then show ?case by simp
next
  case (Cons p ps)
  from Cons.prems have "distinct ps" "set ps \<inter> insert p A = {}" "p \<notin> A" by auto
  moreover have "insert p A \<union> set ps = A \<union> set (p # ps)" by auto
  ultimately show ?case using Cons.IH [of "insert p A"] by simp
qed

lemma nda_optional_call:
  "no_double_attach A (optional_call f (\<lambda>cb. PrimitivesCallback cb ps) @ t) = no_double_attach A t"
  by (cases f) (simp_all add: optional_call_def)

lemma nda_callbacks:
  "no_double_attach A (attachCallback i cur ps @ t) = no_double_attach A t"
  "no_double_attach A (detachCallback i cur ps @ t) = no_double_attach A t"
  by (simp_all add: attachCallback_def detachCallback_def onChartPrimitivesAttached_def
      onChartPrimitivesDetached_def onPanePrimitivesAttached_def onPanePrimitivesDetached_def
      nda_optional_call)

lemma rerun_scope_effect:
  "rerun (Series_scope_effect (Some pane)) old new =
     map (DetachPrimitive pane) (currentPanePrimitives old)
     @ detachCallback old new (currentPanePrimitives old)
     @ map (DetachPrimitive pane) (currentPanePrimitives new)
     @ map (AttachPrimitive pane) (currentPanePrimitives new)
     @ attachCallback new new (currentPanePrimitives new)"
  by (simp add: rerun_def Series_scope_effect_def)

text \<open>An element met after a prefix that does not hold it lies beyond that prefix.\<close>

lemma append_split_after:
  assumes "xs @ ys = pre @ a # post" and "a \<notin> set xs"
  shows "\<exists>mid. pre = xs @ mid"
proof -
  from assms(1) obtain us where
    "(xs = pre @ us \<and> us @ ys = a # post) \<or> (xs @ us = pre \<and> ys = us @ a # post)"
    by (auto simp: append_eq_append_conv2)
  then show ?thesis
  proof
    assume h: "xs = pre @ us \<and> us @ ys = a # post"
    show ?thesis
    proof (cases us)
      case Nil
      with h show ?thesis by simp
    next
      case (Cons u us')
      with h have "a \<in> set xs" by simp
      with assms(2) show ?thesis by simp
    qed
  next
    assume "xs @ us = pre \<and> ys = us @ a # post"
    then show ?thesis by auto
  qed
qed

lemma attach_split:
  assumes "attachPanePrimitives ps pn = pre @ AttachPrimitive pane p # post"
  shows "pn = Some pane \<and> (\<exists>mid. pre = detachPanePrimitives ps (Some pane) @ mid)
         \<and> DetachPrimitive pane p \<in> set pre"
proof (cases pn)
  case None
  with assms show ?thesis by simp
next
  case (Some q)
  let ?a = "AttachPrimitive pane p"
  from assms Some have eq:
    "map (DetachPrimitive q) ps @ map (AttachPrimitive q) ps = pre @ ?a # post"
    by simp
  have notin: "?a \<notin> set (map (DetachPrimitive q) ps)" by auto
  from append_split_after [OF eq notin] obtain mid
    where mid: "pre = map (DetachPrimitive q) ps @ mid"
    by blast
  with eq have "map (AttachPrimitive q) ps = mid @ ?a # post" by simp
  then have "?a \<in> set (map (AttachPrimitive q) ps)" by simp
  then have qp: "q = pane" "p \<in> set ps" by auto
  with mid Some show ?thesis by auto
qed

lemma nda_attachPanePrimitives:
  assumes "distinct ps"
  shows "no_double_attach A (attachPanePrimitives ps (Some pane))"
proof -
  have "set ps \<inter> (A - set ps) = {}" by auto
  with assms have "no_double_attach (A - set ps) (map (AttachPrimitive pane) ps @ [])"
    by (simp only: nda_attach_all no_double_attach.simps)
  then show ?thesis by (simp add: nda_detach_all)
qed

lemma declarePanes_auto:
  "declarePanes (replicate n None) chart =
     (map (\<lambda>k. nextPaneIndex chart + int k) [0..<n],
      chart\<lparr>nextPaneIndex := nextPaneIndex chart + int n\<rparr>)"
proof (induction n arbitrary: chart)
  case 0
  then show ?case by simp
next
  case (Suc n)
  have "map (\<lambda>k. nextPaneIndex chart + int k) [0..<Suc n] =
        nextPaneIndex chart # map (\<lambda>k. nextPaneIndex chart + 1 + int k) [0..<n]"
    by (simp add: upt_conv_Cons map_Suc_upt [symmetric] del: upt_Suc)
  then show ?case
    by (simp add: Suc.IH Pane_paneIdx_def getNextPaneIndex_def del: upt_Suc)
qed

lemma declarePanes_counter: "nextPaneIndex chart \<le> nextPaneIndex (snd (declarePanes ds chart))"
proof (induction ds arbitrary: chart)
  case Nil
  then show ?case by simp
next
  case (Cons d ds)
  show ?case
  proof (cases d)
    case None
    then show ?thesis
      using Cons [of "chart\<lparr>nextPaneIndex := nextPaneIndex chart + 1\<rparr>"]
      by (auto simp add: Pane_paneIdx_def getNextPaneIndex_def split: prod.splits)
  next
    case (Some i)
    then show ?thesis
      using Cons [of chart] by (auto simp add: Pane_paneIdx_def split: prod.splits)
  qed
qed

lemma createSubscriptionEffect_handlers:
  "createSubscriptionEffect methods hs u =
     (map (ChartCall (fst methods)) (handlers_of hs),
      \<lambda>cur. map (ChartCall (snd methods)) (handlers_of hs))"
  by (cases hs rule: handlers_of.cases) (simp_all add: createSubscriptionEffect_def)

text \<open>An effect whose run and cleanup do not depend on its input repeats one block.\<close>

lemma lifecycle_constant:
  assumes "\<And>v. fst (e v) = r" and "\<And>v cur. snd (e v) cur = c"
  shows "lifecycle e v vs = concat (replicate (Suc (length vs)) (r @ c))"
  by (induction vs arbitrary: v) (simp_all add: assms)

lemma data_effect_run:
  "fst (data_effect props) =
     [SetData (data props)]
     @ optional_call (onSetData props) (\<lambda>cb. OnSetData cb (data props))
     @ [CreateSeriesMarkers (local_markers props (data props))]
     @ optional_call (onSetMarkers props)
         (\<lambda>cb. OnSetMarkers cb (local_markers props (data props)))"
  "snd (data_effect props) cur = []"
  by (simp_all add: data_effect_def Let_def)

lemma lifecycle_data_effect:
  "lifecycle data_effect v vs = concat (map (\<lambda>p. fst (data_effect p)) (v # vs))"
  by (induction vs arbitrary: v) (simp_all add: data_effect_run(2))

lemma resize_effect_autoSize: "autoSize props \<Longrightarrow> resize_effect props = ([], \<lambda>cur. [])"
  by (simp add: resize_effect_def)

lemma lifecycle_resize_autoSize:
  "autoSize v \<Longrightarrow> list_all autoSize vs \<Longrightarrow> lifecycle resize_effect v vs = []"
proof (induction vs arbitrary: v)
  case Nil
  then show ?case by (simp add: resize_effect_autoSize)
next
  case (Cons w ws)
  from Cons.prems have "autoSize w" "list_all autoSize ws" by simp_all
  then have "lifecycle resize_effect w ws = []" by (rule Cons.IH)
  with Cons.prems(1) show ?case by (simp add: resize_effect_autoSize)
qed

text \<open>When the tooltip handler hides and when it shows.\<close>

lemma outOfBounds_iff:
  "outOfBounds c param \<longleftrightarrow>
     param_point param = None \<or> param_time param = None
     \<or> (\<exists>t. param_time param = Some t \<and> falsy t)
     \<or> (\<exists>pt. param_point param = Some pt \<and>
          (point_x pt < 0 \<or> point_y pt < 0 \<or> real_of_int (clientWidth c) < point_x pt
           \<or> real_of_int (clientHeight c) < point_y pt))"
  by (auto simp add: outOfBounds_def split: option.splits)

lemma Tooltip_hides:
  "outOfBounds c param \<Longrightarrow>
   Tooltip_onCrosshairMove chart props c param st =
     (st\<lparr>visible := False\<rparr>, optional_call (onHide props) OnHide)"
  by (simp add: Tooltip_onCrosshairMove_def)

lemma Tooltip_shows:
  "\<not> outOfBounds c param \<Longrightarrow>
   Tooltip_onCrosshairMove chart props c param st =
     (\<lparr>visible = True,
       tooltipProps = \<lparr>tooltip_chart = chart, tooltip_seriesData = param_seriesData param,
                       tooltip_point = param_point param, tooltip_time = param_time param\<rparr>\<rparr>,
      optional_call (onShow props) OnShow)"
  by (simp add: Tooltip_onCrosshairMove_def)


section \<open>The claims\<close>

subsection \<open>C1: replacing the pane-scoped primitive list\<close>

text \<open>
  Claim C1, as amended. The list of a series is the chart host's when the pane index the
  series reads is 0 and the enclosing Pane's otherwise (\<open>currentPanePrimitives\<close>). When that
  list is replaced and the series has a pane object, the coordinator calls
  \<^verbatim>\<open>detachPrimitive\<close> for the previous list, invokes the detached callback with the previous
  list, calls \<^verbatim>\<open>detachPrimitive\<close> for the new list, calls \<^verbatim>\<open>attachPrimitive\<close> for the new
  list and invokes the attached callback with the new list, in this order. So the primitives
  detached are those of the previous list followed by those of the new list, and the
  primitives attached are exactly those of the new list. When the new list names no
  primitive twice, no primitive is attached while it is attached, whatever set \<open>A\<close> was
  attached before.
\<close>

theorem scope_primitive_replacement:
  "rerun (Series_scope_effect (Some pane)) old new =
     map (DetachPrimitive pane) (currentPanePrimitives old)
     @ detachCallback old new (currentPanePrimitives old)
     @ map (DetachPrimitive pane) (currentPanePrimitives new)
     @ map (AttachPrimitive pane) (currentPanePrimitives new)
     @ attachCallback new new (currentPanePrimitives new)
   \<and> detached (rerun (Series_scope_effect (Some pane)) old new) =
       currentPanePrimitives old @ currentPanePrimitives new
   \<and> attached (rerun (Series_scope_effect (Some pane)) old new) = currentPanePrimitives new
   \<and> (distinct (currentPanePrimitives new) \<longrightarrow>
       no_double_attach A (rerun (Series_scope_effect (Some pane)) old new))"
proof -
  let ?t = "rerun (Series_scope_effect (Some pane)) old new"
  have d: "detached ?t = currentPanePrimitives old @ currentPanePrimitives new"
    by (simp add: rerun_scope_effect detached_append detached_map_Detach detached_map_Attach
        detached_callbacks)
  have a: "attached ?t = currentPanePrimitives new"
    by (simp add: rerun_scope_effect attached_append attached_map_Detach attached_map_Attach
        attached_callbacks)
  have n: "no_double_attach A ?t" if "distinct (currentPanePrimitives new)"
  proof -
    let ?B = "A - set (currentPanePrimitives old) - set (currentPanePrimitives new)"
    have "set (currentPanePrimitives new) \<inter> ?B = {}" by auto
    with that show ?thesis
      using nda_callbacks(1) [of _ new new "currentPanePrimitives new" "[]"]
      by (simp add: rerun_scope_effect nda_detach_all nda_callbacks nda_attach_all)
  qed
  from d a n show ?thesis by (simp add: rerun_scope_effect)
qed

text \<open>
  The chart-level list \<open>[1]\<close> of a series in the default pane is replaced by \<open>[2, 3]\<close>; the
  host has both callbacks, 7 and 8.
\<close>

theorem scope_primitive_replacement_witness:
  "distinct (currentPanePrimitives
       (\<lparr>chartApi = 0, primitives = [2, 3], onPrimitivesAttached = Some 7,
          onPrimitivesDetached = Some 8\<rparr>, default_PaneContext))
   \<and> rerun (Series_scope_effect (Some 5))
       (\<lparr>chartApi = 0, primitives = [1], onPrimitivesAttached = Some 7,
          onPrimitivesDetached = Some 8\<rparr>, default_PaneContext)
       (\<lparr>chartApi = 0, primitives = [2, 3], onPrimitivesAttached = Some 7,
          onPrimitivesDetached = Some 8\<rparr>, default_PaneContext)
     = [DetachPrimitive 5 1, PrimitivesCallback 8 [1], DetachPrimitive 5 2, DetachPrimitive 5 3,
        AttachPrimitive 5 2, AttachPrimitive 5 3, PrimitivesCallback 7 [2, 3]]
   \<and> no_double_attach {1}
       (rerun (Series_scope_effect (Some 5))
         (\<lparr>chartApi = 0, primitives = [1], onPrimitivesAttached = Some 7,
          onPrimitivesDetached = Some 8\<rparr>, default_PaneContext)
         (\<lparr>chartApi = 0, primitives = [2, 3], onPrimitivesAttached = Some 7,
          onPrimitivesDetached = Some 8\<rparr>, default_PaneContext))"
  using scope_primitive_replacement [of 5
      "(\<lparr>chartApi = 0, primitives = [1], onPrimitivesAttached = Some 7,
          onPrimitivesDetached = Some 8\<rparr>, default_PaneContext)"
      "(\<lparr>chartApi = 0, primitives = [2, 3], onPrimitivesAttached = Some 7,
          onPrimitivesDetached = Some 8\<rparr>, default_PaneContext)" "{1}"]
  by (simp add: currentPanePrimitives_def default_PaneContext_def detachCallback_def
      attachCallback_def onChartPrimitivesAttached_def onChartPrimitivesDetached_def
      optional_call_def)

text \<open>
  Claim C1 as stated fails when \<open>[1]\<close> is replaced by \<open>[2, 2]\<close>: the primitives detached are
  1 and 2, not exactly the previous list, and 2 is attached twice in a row although only 1
  was attached before.
\<close>

theorem scope_primitive_replacement_counterexample:
  "set (detached (rerun (Series_scope_effect (Some 5))
         (\<lparr>chartApi = 0, primitives = [1], onPrimitivesAttached = None,
          onPrimitivesDetached = None\<rparr>, default_PaneContext)
         (\<lparr>chartApi = 0, primitives = [2, 2], onPrimitivesAttached = None,
          onPrimitivesDetached = None\<rparr>, default_PaneContext))) \<noteq> set [1]
   \<and> \<not> no_double_attach (set [1])
       (rerun (Series_scope_effect (Some 5))
         (\<lparr>chartApi = 0, primitives = [1], onPrimitivesAttached = None,
          onPrimitivesDetached = None\<rparr>, default_PaneContext)
         (\<lparr>chartApi = 0, primitives = [2, 2], onPrimitivesAttached = None,
          onPrimitivesDetached = None\<rparr>, default_PaneContext))"
  by (simp add: rerun_def Series_scope_effect_def currentPanePrimitives_def
      default_PaneContext_def detachCallback_def attachCallback_def
      onChartPrimitivesAttached_def onChartPrimitivesDetached_def optional_call_def)


subsection \<open>C2: the pane index allocator\<close>

text \<open>
  Claim C2. An explicit index is returned as it is, 0 included, and leaves the counter alone.
  Without one the allocator returns the counter and increments it. The counter of a new
  chart is 1, so \<open>n\<close> Pane declarations without an index receive \<open>1, 2, ..., n\<close> in the order
  of declaration; and after any declarations \<open>ds\<close>, with an index or without, an automatic
  index is at least 1, never 0.
\<close>

theorem pane_index_allocation:
  "Pane_paneIdx (Some i) chart = (i, chart)
   \<and> Pane_paneIdx None chart =
       (nextPaneIndex chart, chart\<lparr>nextPaneIndex := nextPaneIndex chart + 1\<rparr>)
   \<and> nextPaneIndex createChart = 1
   \<and> fst (declarePanes (replicate n None) createChart) = map int [1..<Suc n]
   \<and> 1 \<le> fst (Pane_paneIdx None (snd (declarePanes ds createChart)))"
proof -
  have "map (\<lambda>k. 1 + int k) [0..<n] = map int [1..<Suc n]"
    by (simp add: map_Suc_upt [symmetric] del: upt_Suc)
  then have a: "fst (declarePanes (replicate n None) createChart) = map int [1..<Suc n]"
    by (simp add: declarePanes_auto createChart_def del: upt_Suc)
  have b: "1 \<le> fst (Pane_paneIdx None (snd (declarePanes ds createChart)))"
    using declarePanes_counter [of createChart ds]
    by (simp add: Pane_paneIdx_def getNextPaneIndex_def createChart_def)
  from a b show ?thesis
    by (simp add: Pane_paneIdx_def getNextPaneIndex_def createChart_def del: upt_Suc)
qed


subsection \<open>C3: detach before attach\<close>

text \<open>
  Claim C3, as amended. Attaching a list to a pane object first detaches the whole list from
  that pane object and then attaches it; the first activation of the effect, followed here
  by its disposal, does so as well. Wherever a call \<^verbatim>\<open>attachPrimitive(p)\<close> on a pane object
  stands in the trace of an attach, the detach calls of the whole list on that pane object
  come before it, the one for \<open>p\<close> among them. So, when the list names no primitive twice,
  no primitive is attached while it is attached, whatever set \<open>A\<close> was attached before.
\<close>

theorem attach_preceded_by_full_detach:
  "attachPanePrimitives ps (Some pane) =
     map (DetachPrimitive pane) ps @ map (AttachPrimitive pane) ps
   \<and> lifecycle (Series_scope_effect (Some pane)) i [] =
       map (DetachPrimitive pane) (currentPanePrimitives i)
       @ map (AttachPrimitive pane) (currentPanePrimitives i)
       @ attachCallback i i (currentPanePrimitives i)
       @ map (DetachPrimitive pane) (currentPanePrimitives i)
       @ detachCallback i i (currentPanePrimitives i)
   \<and> (attachPanePrimitives ps pn = pre @ AttachPrimitive pane p # post \<longrightarrow>
        pn = Some pane
        \<and> (\<exists>mid. pre = detachPanePrimitives ps (Some pane) @ mid)
        \<and> DetachPrimitive pane p \<in> set pre)
   \<and> (distinct ps \<longrightarrow> no_double_attach A (attachPanePrimitives ps (Some pane)))"
proof (intro conjI impI)
  show "attachPanePrimitives ps (Some pane) =
      map (DetachPrimitive pane) ps @ map (AttachPrimitive pane) ps"
    by simp
  show "lifecycle (Series_scope_effect (Some pane)) i [] =
       map (DetachPrimitive pane) (currentPanePrimitives i)
       @ map (AttachPrimitive pane) (currentPanePrimitives i)
       @ attachCallback i i (currentPanePrimitives i)
       @ map (DetachPrimitive pane) (currentPanePrimitives i)
       @ detachCallback i i (currentPanePrimitives i)"
    by (simp add: Series_scope_effect_def)
next
  assume h: "attachPanePrimitives ps pn = pre @ AttachPrimitive pane p # post"
  note s = attach_split [OF h]
  from s show "pn = Some pane" by blast
  from s show "\<exists>mid. pre = detachPanePrimitives ps (Some pane) @ mid" by blast
  from s show "DetachPrimitive pane p \<in> set pre" by blast
next
  assume "distinct ps"
  then show "no_double_attach A (attachPanePrimitives ps (Some pane))"
    by (rule nda_attachPanePrimitives)
qed

text \<open>
  The list \<open>[1, 2]\<close> on pane object 5, split at the attach of 1, with 1 attached before.
\<close>

theorem attach_preceded_by_full_detach_witness:
  "attachPanePrimitives [1, 2] (Some 5) =
     [DetachPrimitive 5 1, DetachPrimitive 5 2] @ AttachPrimitive 5 1 # [AttachPrimitive 5 2]
   \<and> DetachPrimitive 5 1 \<in> set [DetachPrimitive 5 1, DetachPrimitive 5 2]
   \<and> distinct [1::nat, 2]
   \<and> no_double_attach {1} (attachPanePrimitives [1, 2] (Some 5))"
  using attach_preceded_by_full_detach [of "[1, 2]" 5 _ "Some 5"
      "[DetachPrimitive 5 1, DetachPrimitive 5 2]" 1 "[AttachPrimitive 5 2]" "{1}"]
  by simp

text \<open>
  Claim C3 as stated fails for the list \<open>[2, 2]\<close> on its first activation, with nothing
  attached before: the trace is detach 2, detach 2, attach 2, attach 2, and the second
  attach meets 2 attached, with no detach in between.
\<close>

theorem repeated_primitive_attached_twice:
  "attachPanePrimitives [2, 2] (Some 5) =
     [DetachPrimitive 5 2, DetachPrimitive 5 2, AttachPrimitive 5 2, AttachPrimitive 5 2]
   \<and> \<not> no_double_attach {} (attachPanePrimitives [2, 2] (Some 5))"
  by simp


subsection \<open>C4: event subscriptions\<close>

text \<open>
  Claim C4, as amended. For each of click, double click and crosshair move, the subscription
  effect takes no handler, one handler or a list of handlers, as the host's prop holds them
  when the chart mounts. Every run of the effect subscribes all of them, the cleanup before
  a re-run and on teardown unsubscribes all of them, and no other handler is subscribed:
  the props \<open>later\<close> do not occur on the right-hand sides, so a handler the prop receives
  after the mount is not subscribed, however often the effect runs again.
\<close>

theorem subscriptions_fixed_at_mount:
  "lifecycle (click_subscription mounted) mounted later =
     concat (replicate (Suc (length later))
       (map (ChartCall subscribeClick) (handlers_of (onClick mounted))
        @ map (ChartCall unsubscribeClick) (handlers_of (onClick mounted))))
   \<and> lifecycle (dblClick_subscription mounted) mounted later =
     concat (replicate (Suc (length later))
       (map (ChartCall subscribeDblClick) (handlers_of (onDblClick mounted))
        @ map (ChartCall unsubscribeDblClick) (handlers_of (onDblClick mounted))))
   \<and> lifecycle (crosshairMove_subscription mounted) mounted later =
     concat (replicate (Suc (length later))
       (map (ChartCall subscribeCrosshairMove) (handlers_of (onCrosshairMove mounted))
        @ map (ChartCall unsubscribeCrosshairMove) (handlers_of (onCrosshairMove mounted))))"
proof (intro conjI)
  show "lifecycle (click_subscription mounted) mounted later =
     concat (replicate (Suc (length later))
       (map (ChartCall subscribeClick) (handlers_of (onClick mounted))
        @ map (ChartCall unsubscribeClick) (handlers_of (onClick mounted))))"
    by (rule lifecycle_constant)
      (simp_all add: click_subscription_def createSubscriptionEffect_handlers)
  show "lifecycle (dblClick_subscription mounted) mounted later =
     concat (replicate (Suc (length later))
       (map (ChartCall subscribeDblClick) (handlers_of (onDblClick mounted))
        @ map (ChartCall unsubscribeDblClick) (handlers_of (onDblClick mounted))))"
    by (rule lifecycle_constant)
      (simp_all add: dblClick_subscription_def createSubscriptionEffect_handlers)
  show "lifecycle (crosshairMove_subscription mounted) mounted later =
     concat (replicate (Suc (length later))
       (map (ChartCall subscribeCrosshairMove) (handlers_of (onCrosshairMove mounted))
        @ map (ChartCall unsubscribeCrosshairMove) (handlers_of (onCrosshairMove mounted))))"
    by (rule lifecycle_constant)
      (simp_all add: crosshairMove_subscription_def createSubscriptionEffect_handlers)
qed

text \<open>
  Claim C4 as stated fails: a chart mounts with the click handler 1 and its prop is then
  changed to the handler 2. Even with a re-run of the effect at the change, handler 2 is
  never subscribed.
\<close>

theorem changed_handler_never_subscribed:
  "ChartCall subscribeClick 2 \<notin> set (lifecycle
      (click_subscription
        \<lparr>autoSize = True, width = 0, height = 0, forceRepaintOnResize = False,
         onClick = Some (Handler 1), onDblClick = None, onCrosshairMove = None,
         onResize = None\<rparr>)
      \<lparr>autoSize = True, width = 0, height = 0, forceRepaintOnResize = False,
         onClick = Some (Handler 1), onDblClick = None, onCrosshairMove = None,
         onResize = None\<rparr>
      [\<lparr>autoSize = True, width = 0, height = 0, forceRepaintOnResize = False,
         onClick = Some (Handler 2), onDblClick = None, onCrosshairMove = None,
         onResize = None\<rparr>])"
  by (simp add: click_subscription_def createSubscriptionEffect_def)


subsection \<open>C5: data before markers\<close>

text \<open>
  Claim C5. When the data of a series is replaced, the effect sets the new data, invokes the
  data-set callback with it, then applies the marker function to the new data, applies the
  markers and invokes the markers-set callback with them. The previous props \<open>old\<close> do not
  occur in the trace. The second part shows the four calls when the marker function and
  both callbacks are given; the third, that every run of a lifecycle computes the markers
  from the data of that run.
\<close>

theorem markers_recomputed_from_new_data:
  "rerun data_effect old new =
     [SetData (data new)]
     @ optional_call (onSetData new) (\<lambda>cb. OnSetData cb (data new))
     @ [CreateSeriesMarkers (local_markers new (data new))]
     @ optional_call (onSetMarkers new) (\<lambda>cb. OnSetMarkers cb (local_markers new (data new)))
   \<and> rerun data_effect old
        (new\<lparr>markers := Some f, onSetData := Some c1, onSetMarkers := Some c2\<rparr>) =
       [SetData (data new), OnSetData c1 (data new),
        CreateSeriesMarkers (f (data new)), OnSetMarkers c2 (f (data new))]
   \<and> lifecycle data_effect v vs = concat (map (\<lambda>p. fst (data_effect p)) (v # vs))"
  by (simp add: rerun_def data_effect_run lifecycle_data_effect local_markers_def
      optional_call_def del: lifecycle.simps)


subsection \<open>C6: resizing\<close>

text \<open>
  Claim C6. With autoSize disabled, a change of the width, the height or the force-repaint
  flag calls \<^verbatim>\<open>resize\<close> with the new width, the new height and the flag of that moment, and
  invokes the resize callback with the new width and height. With autoSize enabled in the
  props at the mount and in all later ones, the effect never calls \<^verbatim>\<open>resize\<close>: it makes no
  call at all.
\<close>

theorem resize_follows_autoSize:
  "(\<not> autoSize new \<longrightarrow>
      rerun resize_effect old new =
        Resize (width new) (height new) (forceRepaintOnResize new)
        # optional_call (onResize new) (\<lambda>cb. OnResize cb (width new) (height new)))
   \<and> ((\<forall>p \<in> set (v # vs). autoSize p) \<longrightarrow> lifecycle resize_effect v vs = [])"
proof (intro conjI impI)
  assume "\<not> autoSize new"
  then show "rerun resize_effect old new =
        Resize (width new) (height new) (forceRepaintOnResize new)
        # optional_call (onResize new) (\<lambda>cb. OnResize cb (width new) (height new))"
    by (simp add: rerun_def resize_effect_def)
next
  assume "\<forall>p \<in> set (v # vs). autoSize p"
  then have "autoSize v" "list_all autoSize vs" by (simp_all add: list_all_iff)
  then show "lifecycle resize_effect v vs = []" by (rule lifecycle_resize_autoSize)
qed

text \<open>The two scenarios: 800 by 400 becomes 1000 by 500, autoSize disabled and enabled.\<close>

theorem resize_follows_autoSize_witness:
  "\<not> autoSize \<lparr>autoSize = False, width = 1000, height = 500, forceRepaintOnResize = False,
        onClick = None, onDblClick = None, onCrosshairMove = None, onResize = Some 9\<rparr>
   \<and> rerun resize_effect
       \<lparr>autoSize = False, width = 800, height = 400, forceRepaintOnResize = False,
        onClick = None, onDblClick = None, onCrosshairMove = None, onResize = Some 9\<rparr>
       \<lparr>autoSize = False, width = 1000, height = 500, forceRepaintOnResize = False,
        onClick = None, onDblClick = None, onCrosshairMove = None, onResize = Some 9\<rparr>
     = [Resize 1000 500 False, OnResize 9 1000 500]
   \<and> autoSize
       \<lparr>autoSize = True, width = 800, height = 400, forceRepaintOnResize = False,
        onClick = None, onDblClick = None, onCrosshairMove = None, onResize = Some 9\<rparr>
   \<and> autoSize
       \<lparr>autoSize = True, width = 1000, height = 500, forceRepaintOnResize = False,
        onClick = None, onDblClick = None, onCrosshairMove = None, onResize = Some 9\<rparr>
   \<and> lifecycle resize_effect
       \<lparr>autoSize = True, width = 800, height = 400, forceRepaintOnResize = False,
        onClick = None, onDblClick = None, onCrosshairMove = None, onResize = Some 9\<rparr>
       [\<lparr>autoSize = True, width = 1000, height = 500, forceRepaintOnResize = False,
        onClick = None, onDblClick = None, onCrosshairMove = None, onResize = Some 9\<rparr>] = []"
  using resize_follows_autoSize [of
      "\<lparr>autoSize = False, width = 1000, height = 500, forceRepaintOnResize = False,
        onClick = None, onDblClick = None, onCrosshairMove = None, onResize = Some 9\<rparr>"
      "\<lparr>autoSize = False, width = 800, height = 400, forceRepaintOnResize = False,
        onClick = None, onDblClick = None, onCrosshairMove = None, onResize = Some 9\<rparr>"
      "\<lparr>autoSize = True, width = 800, height = 400, forceRepaintOnResize = False,
        onClick = None, onDblClick = None, onCrosshairMove = None, onResize = Some 9\<rparr>"
      "[\<lparr>autoSize = True, width = 1000, height = 500, forceRepaintOnResize = False,
        onClick = None, onDblClick = None, onCrosshairMove = None, onResize = Some 9\<rparr>]"]
  by (simp add: optional_call_def del: lifecycle.simps)


subsection \<open>C7: the tooltip on a crosshair move\<close>

text \<open>
  Claim C7 does not hold of the code at an axis value that is defined and is the number 0,
  as the first point of a price chart has it. The point \<open>(10, 10)\<close> lies inside the 800 by
  400 container, and the handler hides the tooltip and invokes on-hide, where the claim has
  it show the tooltip and invoke on-show: \<^verbatim>\<open>!param.time\<close> is true of 0.
\<close>

theorem tooltip_hidden_at_axis_value_zero:
  "Tooltip_onCrosshairMove 0 \<lparr>onHide = Some 1, onShow = Some 2\<rparr>
     \<lparr>clientWidth = 800, clientHeight = 400\<rparr>
     \<lparr>param_point = Some \<lparr>point_x = 10, point_y = 10\<rparr>, param_time = Some (NumberItem 0),
      param_seriesData = Map.empty\<rparr>
     (createTooltip 0)
   = ((createTooltip 0)\<lparr>visible := False\<rparr>, [OnHide 1])"
  by (simp add: Tooltip_onCrosshairMove_def outOfBounds_def optional_call_def)

text \<open>The same event with the axis value 1 shows the tooltip.\<close>

lemma tooltip_shown_at_axis_value_one:
  "Tooltip_onCrosshairMove 0 \<lparr>onHide = Some 1, onShow = Some 2\<rparr>
     \<lparr>clientWidth = 800, clientHeight = 400\<rparr>
     \<lparr>param_point = Some \<lparr>point_x = 10, point_y = 10\<rparr>, param_time = Some (NumberItem 1),
      param_seriesData = Map.empty\<rparr>
     (createTooltip 0)
   = (\<lparr>visible = True,
       tooltipProps = \<lparr>tooltip_chart = 0, tooltip_seriesData = Map.empty,
                       tooltip_point = Some \<lparr>point_x = 10, point_y = 10\<rparr>,
                       tooltip_time = Some (NumberItem 1)\<rparr>\<rparr>, [OnShow 2])"
  by (simp add: Tooltip_onCrosshairMove_def outOfBounds_def optional_call_def)


subsection \<open>C8: a declaration without its chart\<close>

text \<open>
  Claim C8. A Pane, Series, CustomSeries or Tooltip of a family, activated where no chart of
  that family provides its context, fails with the error of that family's hook, whose
  message names the family; the component returns the error of the hook as it is.
\<close>

theorem missing_parent_chart_throws:
  "(TimeChartContext env = None \<longrightarrow>
      Pane useTimeChart env props chart = Inl (Error (''[solid-lightweight-charts] No parent '' @ ''TimeChart'' @ '' component found!''))
      \<and> Series useTimeChart env pc panes = Inl (Error (''[solid-lightweight-charts] No parent '' @ ''TimeChart'' @ '' component found!''))
      \<and> CustomSeries useTimeChart env pc panes = Inl (Error (''[solid-lightweight-charts] No parent '' @ ''TimeChart'' @ '' component found!''))
      \<and> Tooltip useTimeChart env = Inl (Error (''[solid-lightweight-charts] No parent '' @ ''TimeChart'' @ '' component found!'')))
   \<and> (PriceChartContext env = None \<longrightarrow>
      Pane usePriceChart env props chart = Inl (Error (''[solid-lightweight-charts] No parent '' @ ''PriceChart'' @ '' component found!''))
      \<and> Series usePriceChart env pc panes = Inl (Error (''[solid-lightweight-charts] No parent '' @ ''PriceChart'' @ '' component found!''))
      \<and> CustomSeries usePriceChart env pc panes = Inl (Error (''[solid-lightweight-charts] No parent '' @ ''PriceChart'' @ '' component found!''))
      \<and> Tooltip usePriceChart env = Inl (Error (''[solid-lightweight-charts] No parent '' @ ''PriceChart'' @ '' component found!'')))
   \<and> (YieldCurveChartContext env = None \<longrightarrow>
      Pane useYieldCurveChart env props chart = Inl (Error (''[solid-lightweight-charts] No parent '' @ ''YieldCurveChart'' @ '' component found!''))
      \<and> Series useYieldCurveChart env pc panes = Inl (Error (''[solid-lightweight-charts] No parent '' @ ''YieldCurveChart'' @ '' component found!''))
      \<and> CustomSeries useYieldCurveChart env pc panes = Inl (Error (''[solid-lightweight-charts] No parent '' @ ''YieldCurveChart'' @ '' component found!''))
      \<and> Tooltip useYieldCurveChart env = Inl (Error (''[solid-lightweight-charts] No parent '' @ ''YieldCurveChart'' @ '' component found!'')))"
proof -
  have t: "useTimeChart env = Inl (Error (''[solid-lightweight-charts] No parent '' @ ''TimeChart'' @ '' component found!''))"
    if "TimeChartContext env = None"
    using that by (simp add: useTimeChart_def)
  have p: "usePriceChart env = Inl (Error (''[solid-lightweight-charts] No parent '' @ ''PriceChart'' @ '' component found!''))"
    if "PriceChartContext env = None"
    using that by (simp add: usePriceChart_def)
  have y: "useYieldCurveChart env = Inl (Error (''[solid-lightweight-charts] No parent '' @ ''YieldCurveChart'' @ '' component found!''))"
    if "YieldCurveChartContext env = None"
    using that by (simp add: useYieldCurveChart_def)
  have f: "Pane h env props chart = Inl e \<and> Series h env pc panes = Inl e
      \<and> CustomSeries h env pc panes = Inl e \<and> Tooltip h env = Inl e"
    if "h env = Inl e" for h e
    using that by (simp add: Pane_def Series_def CustomSeries_def Tooltip_def)
  from f [of useTimeChart, OF t] f [of usePriceChart, OF p] f [of useYieldCurveChart, OF y]
  show ?thesis by blast
qed

text \<open>No chart of any family around the declaration.\<close>

theorem missing_parent_chart_throws_witness:
  "TimeChartContext \<lparr>TimeChartContext = None, PriceChartContext = None, YieldCurveChartContext = None\<rparr> = None
   \<and> Pane useTimeChart \<lparr>TimeChartContext = None, PriceChartContext = None, YieldCurveChartContext = None\<rparr>
        \<lparr>index = None, pane_primitives = [], onAttachPrimitives = None,
         onDetachPrimitives = None\<rparr> createChart = Inl (Error ''[solid-lightweight-charts] No parent TimeChart component found!'')
   \<and> Series useTimeChart \<lparr>TimeChartContext = None, PriceChartContext = None, YieldCurveChartContext = None\<rparr> default_PaneContext [0] = Inl (Error ''[solid-lightweight-charts] No parent TimeChart component found!'')
   \<and> CustomSeries useTimeChart \<lparr>TimeChartContext = None, PriceChartContext = None, YieldCurveChartContext = None\<rparr> default_PaneContext [0] = Inl (Error ''[solid-lightweight-charts] No parent TimeChart component found!'')
   \<and> Tooltip useTimeChart \<lparr>TimeChartContext = None, PriceChartContext = None, YieldCurveChartContext = None\<rparr> = Inl (Error ''[solid-lightweight-charts] No parent TimeChart component found!'')
   \<and> PriceChartContext \<lparr>TimeChartContext = None, PriceChartContext = None, YieldCurveChartContext = None\<rparr> = None
   \<and> Pane usePriceChart \<lparr>TimeChartContext = None, PriceChartContext = None, YieldCurveChartContext = None\<rparr>
        \<lparr>index = None, pane_primitives = [], onAttachPrimitives = None,
         onDetachPrimitives = None\<rparr> createChart = Inl (Error ''[solid-lightweight-charts] No parent PriceChart component found!'')
   \<and> Series usePriceChart \<lparr>TimeChartContext = None, PriceChartContext = None, YieldCurveChartContext = None\<rparr> default_PaneContext [0] = Inl (Error ''[solid-lightweight-charts] No parent PriceChart component found!'')
   \<and> CustomSeries usePriceChart \<lparr>TimeChartContext = None, PriceChartContext = None, YieldCurveChartContext = None\<rparr> default_PaneContext [0] = Inl (Error ''[solid-lightweight-charts] No parent PriceChart component found!'')
   \<and> Tooltip usePriceChart \<lparr>TimeChartContext = None, PriceChartContext = None, YieldCurveChartContext = None\<rparr> = Inl (Error ''[solid-lightweight-charts] No parent PriceChart component found!'')
   \<and> YieldCurveChartContext \<lparr>TimeChartContext = None, PriceChartContext = None, YieldCurveChartContext = None\<rparr> = None
   \<and> Pane useYieldCurveChart \<lparr>TimeChartContext = None, PriceChartContext = None, YieldCurveChartContext = None\<rparr>
        \<lparr>index = None, pane_primitives = [], onAttachPrimitives = None,
         onDetachPrimitives = None\<rparr> createChart = Inl (Error ''[solid-lightweight-charts] No parent YieldCurveChart component found!'')
   \<and> Series useYieldCurveChart \<lparr>TimeChartContext = None, PriceChartContext = None, YieldCurveChartContext = None\<rparr> default_PaneContext [0] = Inl (Error ''[solid-lightweight-charts] No parent YieldCurveChart component found!'')
   \<and> CustomSeries useYieldCurveChart \<lparr>TimeChartContext = None, PriceChartContext = None, YieldCurveChartContext = None\<rparr> default_PaneContext [0] = Inl (Error ''[solid-lightweight-charts] No parent YieldCurveChart component found!'')
   \<and> Tooltip useYieldCurveChart \<lparr>TimeChartContext = None, PriceChartContext = None, YieldCurveChartContext = None\<rparr> = Inl (Error ''[solid-lightweight-charts] No parent YieldCurveChart component found!'')"
  using missing_parent_chart_throws [of
      "\<lparr>TimeChartContext = None, PriceChartContext = None, YieldCurveChartContext = None\<rparr>"
      "\<lparr>index = None, pane_primitives = [], onAttachPrimitives = None,
        onDetachPrimitives = None\<rparr>" createChart default_PaneContext "[0]"]
  by simp


subsection \<open>C9: a series without a pane object\<close>

text \<open>
  Claim C9. Without a pane object, detaching and attaching make no call and raise nothing
  (the functions return the empty trace), and the effect still invokes the attached
  callback, and its cleanup the detached callback, with the whole list. The pane object is
  undefined when the pane index of the series has no entry in the chart's pane list.
\<close>

theorem undefined_pane_is_noop:
  "detachPanePrimitives ps None = []
   \<and> attachPanePrimitives ps None = []
   \<and> fst (Series_scope_effect None i) = attachCallback i i (currentPanePrimitives i)
   \<and> snd (Series_scope_effect None i) cur = detachCallback i cur (currentPanePrimitives i)
   \<and> (idx < 0 \<or> int (length panes) \<le> idx \<longrightarrow> seriesPane panes idx = None)"
  by (auto simp add: Series_scope_effect_def seriesPane_def)

text \<open>A series in a Pane of index 3 in a chart with a single pane object.\<close>

theorem undefined_pane_is_noop_witness:
  "((3::int) < 0 \<or> int (length [10::nat]) \<le> 3)
   \<and> seriesPane [10] 3 = None
   \<and> lifecycle (Series_scope_effect (seriesPane [10] 3))
        (\<lparr>chartApi = 0, primitives = [], onPrimitivesAttached = None,
          onPrimitivesDetached = None\<rparr>,
         \<lparr>paneIdx = 3,
          paneProps = \<lparr>index = Some 3, pane_primitives = [1, 2],
                       onAttachPrimitives = Some 7, onDetachPrimitives = Some 8\<rparr>\<rparr>) []
       = [PrimitivesCallback 7 [1, 2], PrimitivesCallback 8 [1, 2]]"
proof -
  have h: "(3::int) < 0 \<or> int (length [10::nat]) \<le> 3" by simp
  from undefined_pane_is_noop [of _ _ _ 3 "[10]"] h have n: "seriesPane [10] 3 = None"
    by blast
  show ?thesis
    using h n undefined_pane_is_noop [of "[1, 2]"
        "(\<lparr>chartApi = 0, primitives = [], onPrimitivesAttached = None,
          onPrimitivesDetached = None\<rparr>,
         \<lparr>paneIdx = 3,
          paneProps = \<lparr>index = Some 3, pane_primitives = [1, 2],
                       onAttachPrimitives = Some 7, onDetachPrimitives = Some 8\<rparr>\<rparr>)"]
    by (simp add: attachCallback_def detachCallback_def currentPanePrimitives_def
        panePrimitives_def onPanePrimitivesAttached_def onPanePrimitivesDetached_def
        optional_call_def)
qed


subsection \<open>C10: a Pane with the explicit index 0\<close>

text \<open>
  Claim C10. A Pane declared with the index 0 provides the pane index 0 and leaves the
  counter alone; a series inside it attaches the chart host's list and invokes the chart
  host's callbacks, on the run and on the cleanup. The props of the Pane do not occur on the
  right-hand sides: its own list and callbacks are never applied.
\<close>

theorem explicit_pane_zero_uses_chart_scope:
  "paneIdx (fst (Pane_context (props\<lparr>index := Some 0\<rparr>) chart)) = 0
   \<and> snd (Pane_context (props\<lparr>index := Some 0\<rparr>) chart) = chart
   \<and> fst (Series_scope_effect pane (cc, fst (Pane_context (props\<lparr>index := Some 0\<rparr>) chart))) =
       attachPanePrimitives (primitives cc) pane @ onChartPrimitivesAttached cc (primitives cc)
   \<and> snd (Series_scope_effect pane (cc, fst (Pane_context (props\<lparr>index := Some 0\<rparr>) chart))) cur =
       detachPanePrimitives (primitives cc) pane
       @ onChartPrimitivesDetached (fst cur) (primitives cc)"
  by (simp add: Pane_context_def Pane_paneIdx_def Series_scope_effect_def
      currentPanePrimitives_def attachCallback_def detachCallback_def)

end
